theory Spec2Isabelle
  imports Main
begin

section \<open>The LDAP auth-method module of ansible-modules-hashivault\<close>

text \<open>
  A shallow embedding of \<^verbatim>\<open>src/ansible/modules/hashivault/hashivault_auth_ldap.py\<close>:
  the argument schema declared in \<^verbatim>\<open>main\<close> and the body of
  \<^verbatim>\<open>hashivault_auth_ldap(module)\<close>, which builds the desired state, reads the current
  configuration, compares them key by key and calls \<^verbatim>\<open>client.auth.ldap.configure\<close>.
\<close>

subsection \<open>Python values and dictionaries\<close>

text \<open>
  The values that Ansible parameters and a decoded JSON answer hold. Floats and nested
  dictionaries do not occur in the module's schema and are left out.
\<close>

datatype pyval =
    PNone
  | PBool bool
  | PInt int
  | PStr string
  | PList "pyval list"

text \<open>
  A Python \<^verbatim>\<open>dict\<close> with string keys, in insertion order (the order in which
  \<^verbatim>\<open>desired_state.items()\<close> is walked). \<^verbatim>\<open>d[k]\<close> is \<open>map_of d k\<close>, where
  \<open>None\<close> stands for the \<^verbatim>\<open>KeyError\<close>.
\<close>

type_synonym pydict = "(string \<times> pyval) list"

text \<open>\<^verbatim>\<open>d.get(k)\<close>: the value, or \<^verbatim>\<open>None\<close> when the key is absent.\<close>

definition py_get :: "pydict \<Rightarrow> string \<Rightarrow> pyval" where
  "py_get d k = (case map_of d k of None \<Rightarrow> PNone | Some v \<Rightarrow> v)"

text \<open>\<^verbatim>\<open>d[k] = v\<close>: replaces the value in place, or appends a new key.\<close>

fun py_setitem :: "string \<Rightarrow> 'v \<Rightarrow> (string \<times> 'v) list \<Rightarrow> (string \<times> 'v) list" where
  "py_setitem k v [] = [(k, v)]"
| "py_setitem k v ((k', v') # d) =
     (if k' = k then (k, v) # d else (k', v') # py_setitem k v d)"

text \<open>\<^verbatim>\<open>del d[k]\<close> for a key that is present.\<close>

definition py_del :: "string \<Rightarrow> pydict \<Rightarrow> pydict" where
  "py_del k d = filter (\<lambda>kv. fst kv \<noteq> k) d"

definition py_keys :: "(string \<times> 'v) list \<Rightarrow> string list" where
  "py_keys d = map fst d"

text \<open>
  Python's \<^verbatim>\<open>==\<close> on these values. \<^verbatim>\<open>bool\<close> is a subclass of \<^verbatim>\<open>int\<close>, so
  \<^verbatim>\<open>True == 1\<close> and \<^verbatim>\<open>False == 0\<close>; lists are equal when they have the same length
  and equal elements; values of unrelated types are unequal. None of these comparisons
  raises.
\<close>

fun py_eq :: "pyval \<Rightarrow> pyval \<Rightarrow> bool"
  and py_eq_list :: "pyval list \<Rightarrow> pyval list \<Rightarrow> bool" where
  "py_eq PNone w = (w = PNone)"
| "py_eq (PBool a) w =
     (case w of PBool b \<Rightarrow> a = b | PInt j \<Rightarrow> (if a then 1 else 0) = j | _ \<Rightarrow> False)"
| "py_eq (PInt i) w =
     (case w of PBool b \<Rightarrow> i = (if b then 1 else 0) | PInt j \<Rightarrow> i = j | _ \<Rightarrow> False)"
| "py_eq (PStr s) w = (case w of PStr t \<Rightarrow> s = t | _ \<Rightarrow> False)"
| "py_eq (PList xs) w = (case w of PList ys \<Rightarrow> py_eq_list xs ys | _ \<Rightarrow> False)"
| "py_eq_list [] ys = (ys = [])"
| "py_eq_list (x # xs) ys =
     (case ys of [] \<Rightarrow> False | y # ys' \<Rightarrow> py_eq x y \<and> py_eq_list xs ys')"

text \<open>\<^verbatim>\<open>v != w\<close>.\<close>

definition py_ne :: "pyval \<Rightarrow> pyval \<Rightarrow> bool" where
  "py_ne v w = (\<not> py_eq v w)"

text \<open>
  A Python \<^verbatim>\<open>str\<close> is held as the bytes of its UTF-8 form, so a character of the
  ASCII range is one \<open>char\<close> below 128 and any other character is a sequence of
  \<open>char\<close>s from 128 on.
\<close>

definition is_ascii :: "string \<Rightarrow> bool" where
  "is_ascii s = list_all (\<lambda>c. (of_char c :: nat) < 128) s"

text \<open>
  \<^verbatim>\<open>str.lower()\<close>. On a string of ASCII characters it maps the letters A to Z to
  a to z and leaves every other character as it is. On any other string the result
  follows the Unicode tables of the Python interpreter, which are not part of this file:
  there it is what the parameter \<open>unicode_lower\<close> gives.
\<close>

definition lower_char :: "char \<Rightarrow> char" where
  "lower_char c =
     (let n = (of_char c :: nat) in if 65 \<le> n \<and> n \<le> 90 then char_of (n + 32) else c)"

definition str_lower :: "(string \<Rightarrow> string) \<Rightarrow> string \<Rightarrow> string" where
  "str_lower unicode_lower s = (if is_ascii s then map lower_char s else unicode_lower s)"

text \<open>Exceptions that leave the function body uncaught.\<close>

datatype pyexc =
    AttributeError
  | RemoteError string

text \<open>
  \<^verbatim>\<open>v.lower()\<close> on a parameter value: only a string has the method; on \<^verbatim>\<open>None\<close>
  (and on any other value) the attribute lookup raises \<^verbatim>\<open>AttributeError\<close>.
\<close>

definition py_lower :: "(string \<Rightarrow> string) \<Rightarrow> pyval \<Rightarrow> pyexc + pyval" where
  "py_lower ul v =
     (case v of PStr s \<Rightarrow> Inr (PStr (str_lower ul s)) | _ \<Rightarrow> Inl AttributeError)"

text \<open>
  \<^verbatim>\<open>str(e)\<close> of the \<^verbatim>\<open>KeyError\<close> raised by \<^verbatim>\<open>current_state[k]\<close>: the \<^verbatim>\<open>repr\<close> of the
  key, which for the identifier-like keys of the desired state is the key between single
  quotes.
\<close>

definition key_error_str :: "string \<Rightarrow> string" where
  "key_error_str k = [CHR 0x27] @ k @ [CHR 0x27]"

subsection \<open>The argument schema of \<^verbatim>\<open>main\<close>\<close>

record argspec_entry =
  required :: bool
  ftype :: string
  default :: pyval
  no_log :: bool
  aliases :: "string list"

definition arg :: "string \<Rightarrow> pyval \<Rightarrow> string list \<Rightarrow> argspec_entry" where
  "arg t d al = \<lparr>required = False, ftype = t, default = d, no_log = False, aliases = al\<rparr>"

definition default_groupfilter :: string where
  "default_groupfilter =
     ''(|(memberUid={{.Username}})(member={{.UserDN}})(uniqueMember={{.UserDN}}))''"

definition default_userfilter :: string where
  "default_userfilter = ''({{.UserAttr}}={{.Username}})''"

text \<open>
  The assignments \<^verbatim>\<open>argspec[name] = dict(...)\<close> of \<^verbatim>\<open>main\<close>, in source order.
\<close>

definition main_entries :: "(string \<times> argspec_entry) list" where
  "main_entries =
    [(''mount_point'', arg ''str'' (PStr ''ldap'') []),
     (''anonymous_group_search'', arg ''bool'' (PBool False) []),
     (''binddn'', arg ''str'' (PStr []) [''bind_dn'']),
     (''bindpass'', (arg ''str'' PNone [''bind_pass''])\<lparr>no_log := True\<rparr>),
     (''case_sensitive_names'', arg ''bool'' (PBool False) []),
     (''certificate'', arg ''str'' (PStr []) []),
     (''deny_null_bind'', arg ''bool'' (PBool True) []),
     (''discoverdn'', arg ''bool'' (PBool False) [''discover_dn'']),
     (''groupattr'', arg ''str'' (PStr ''cn'') [''group_attr'']),
     (''groupdn'', arg ''str'' (PStr []) [''group_dn'']),
     (''groupfilter'', arg ''str'' (PStr default_groupfilter) [''group_filter'']),
     (''insecure_tls'', arg ''bool'' (PBool False) []),
     (''request_timeout'', arg ''int'' (PInt 90) []),
     (''starttls'', arg ''bool'' (PBool False) []),
     (''tls_max_version'', arg ''str'' (PStr ''tls12'') []),
     (''tls_min_version'', arg ''str'' (PStr ''tls12'') []),
     (''token_bound_cidrs'', arg ''list'' (PList []) []),
     (''token_explicit_max_ttl'', arg ''int'' (PInt 0) []),
     (''token_max_ttl'', arg ''int'' (PInt 0) []),
     (''token_no_default_policy'', arg ''bool'' (PBool False) []),
     (''token_num_uses'', arg ''int'' (PInt 0) []),
     (''token_period'', arg ''int'' (PInt 0) []),
     (''token_policies'', arg ''list'' (PList []) []),
     (''token_ttl'', arg ''int'' (PInt 0) []),
     (''token_type'', arg ''str'' (PStr ''default'') []),
     (''upndomain'', arg ''str'' (PStr []) [''upn_domain'']),
     (''ldap_url'', arg ''str'' (PStr ''ldap://127.0.0.1'') []),
     (''use_token_groups'', arg ''bool'' (PBool False) []),
     (''userattr'', arg ''str'' (PStr ''cn'') [''user_attr'']),
     (''userdn'', arg ''str'' (PStr []) [''user_dn'']),
     (''userfilter'', arg ''str'' (PStr default_userfilter) []),
     (''username_as_alias'', arg ''bool'' (PBool False) [])]"

text \<open>
  The schema handed to \<^verbatim>\<open>hashivault_init\<close>. \<^verbatim>\<open>hashivault_argspec()\<close> belongs to
  \<^verbatim>\<open>ansible.module_utils.hashivault\<close>, which is not part of this file, so the
  dictionary it returns is the parameter \<open>base\<close>.
\<close>

definition main_argspec :: "(string \<times> argspec_entry) list \<Rightarrow> (string \<times> argspec_entry) list" where
  "main_argspec base = fold (\<lambda>(k, e) d. py_setitem k e d) main_entries base"

subsection \<open>The module object and the Vault client\<close>

text \<open>
  What \<^verbatim>\<open>client.auth.ldap.read_configuration(mount_point=...)['data']\<close> yields: the
  configuration dictionary (the \<^verbatim>\<open>data\<close> entry of a Vault answer is a JSON object),
  the \<^verbatim>\<open>InvalidPath\<close> exception of hvac, or any other exception.
\<close>

datatype read_result =
    ReadData pydict
  | ReadInvalidPath
  | ReadRaises pyexc

text \<open>
  The client returned by \<^verbatim>\<open>hashivault_auth_client(params)\<close>. Both calls go to hvac, so
  their answers are parameters: the read answers per mount point, the write either
  returns (\<open>None\<close>) or raises.
\<close>

record client =
  read_configuration :: "pyval \<Rightarrow> read_result"
  configure :: "pydict \<Rightarrow> pyexc option"

record ansible_module =
  params :: pydict
  check_mode :: bool
  auth_client :: client

text \<open>The calls made on the client, in the order they are made, with their arguments.\<close>

datatype client_call =
    CallRead pyval
  | CallConfigure pydict

text \<open>
  What the function body produces: the success dictionary
  \<^verbatim>\<open>{'changed': c, 'diff': {'before': b, 'after': a}}\<close>, the failure dictionary
  \<^verbatim>\<open>{'failed': True, 'msg': m}\<close>, or an exception that leaves the body.
\<close>

datatype outcome =
    Returned bool pydict pydict
  | Failed string
  | Raised pyexc

subsection \<open>\<^verbatim>\<open>hashivault_auth_ldap\<close>\<close>

text \<open>
  Lines 230 to 263: the dictionary literal. Its values are evaluated in source order, so
  \<^verbatim>\<open>params.get('groupattr').lower()\<close> is evaluated before
  \<^verbatim>\<open>params.get('userattr').lower()\<close>, and either raises when the value is not a string.
  The argument \<open>ul\<close>, here and in the functions below, is the lower-casing of the
  interpreter that \<open>str_lower\<close> uses on non-ASCII strings.
\<close>

definition desired_state_literal :: "(string \<Rightarrow> string) \<Rightarrow> pydict \<Rightarrow> pyexc + pydict" where
  "desired_state_literal ul ps =
    (case py_lower ul (py_get ps ''groupattr'') of
       Inl e \<Rightarrow> Inl e
     | Inr ga \<Rightarrow>
        (case py_lower ul (py_get ps ''userattr'') of
           Inl e \<Rightarrow> Inl e
         | Inr ua \<Rightarrow> Inr
            [(''anonymous_group_search'', py_get ps ''anonymous_group_search''),
             (''binddn'', py_get ps ''binddn''),
             (''bindpass'', py_get ps ''bindpass''),
             (''case_sensitive_names'', py_get ps ''case_sensitive_names''),
             (''certificate'', py_get ps ''certificate''),
             (''deny_null_bind'', py_get ps ''deny_null_bind''),
             (''discoverdn'', py_get ps ''discoverdn''),
             (''groupattr'', ga),
             (''groupdn'', py_get ps ''groupdn''),
             (''groupfilter'', py_get ps ''groupfilter''),
             (''insecure_tls'', py_get ps ''insecure_tls''),
             (''request_timeout'', py_get ps ''request_timeout''),
             (''starttls'', py_get ps ''starttls''),
             (''tls_max_version'', py_get ps ''tls_max_version''),
             (''tls_min_version'', py_get ps ''tls_min_version''),
             (''token_bound_cidrs'', py_get ps ''token_bound_cidrs''),
             (''token_explicit_max_ttl'', py_get ps ''token_explicit_max_ttl''),
             (''token_max_ttl'', py_get ps ''token_max_ttl''),
             (''token_no_default_policy'', py_get ps ''token_no_default_policy''),
             (''token_num_uses'', py_get ps ''token_num_uses''),
             (''token_period'', py_get ps ''token_period''),
             (''token_policies'', py_get ps ''token_policies''),
             (''token_ttl'', py_get ps ''token_ttl''),
             (''token_type'', py_get ps ''token_type''),
             (''upndomain'', py_get ps ''upndomain''),
             (''url'', py_get ps ''ldap_url''),
             (''use_pre111_group_cn_behavior'', py_get ps ''use_pre111_group_cn_behavior''),
             (''use_token_groups'', py_get ps ''use_token_groups''),
             (''userattr'', ua),
             (''userdn'', py_get ps ''userdn''),
             (''userfilter'', py_get ps ''userfilter''),
             (''username_as_alias'', py_get ps ''username_as_alias'')]))"

text \<open>
  Lines 265 to 267: \<^verbatim>\<open>if desired_state['bindpass'] is None: del desired_state['bindpass']\<close>.
\<close>

definition drop_none_bindpass :: "pydict \<Rightarrow> pydict" where
  "drop_none_bindpass ds =
     (if map_of ds ''bindpass'' = Some PNone then py_del ''bindpass'' ds else ds)"

definition build_desired_state :: "(string \<Rightarrow> string) \<Rightarrow> pydict \<Rightarrow> pyexc + pydict" where
  "build_desired_state ul ps =
     (case desired_state_literal ul ps of
        Inl e \<Rightarrow> Inl e
      | Inr ds \<Rightarrow> Inr (drop_none_bindpass ds))"

text \<open>
  Lines 279 to 287: the comparison loop over \<^verbatim>\<open>desired_state.items()\<close>, with the flag
  \<^verbatim>\<open>changed\<close> as accumulator. A key missing from \<^verbatim>\<open>current_state\<close> raises
  \<^verbatim>\<open>KeyError\<close>, which the loop turns into the early failure return (\<open>Inl\<close> of the
  message). The second handler, \<^verbatim>\<open>except Exception\<close>, has nothing to catch: \<^verbatim>\<open>!=\<close>
  on the values above does not raise.
\<close>

fun compare_loop :: "pydict \<Rightarrow> pydict \<Rightarrow> bool \<Rightarrow> string + bool" where
  "compare_loop [] cur changed = Inr changed"
| "compare_loop ((k, v) # rest) cur changed =
     (if k \<noteq> ''bindpass'' then
        (case map_of cur k of
           None \<Rightarrow> Inl (''HVAC unsupported parameter: '' @ key_error_str k)
         | Some c \<Rightarrow> compare_loop rest cur (if py_ne v c then True else changed))
      else compare_loop rest cur changed)"

text \<open>
  The whole body. The result is paired with the calls made on the client. An exception
  raised by \<^verbatim>\<open>.lower()\<close>, by the read (other than \<^verbatim>\<open>InvalidPath\<close>) or by
  \<^verbatim>\<open>configure\<close> leaves the body; the decorator \<^verbatim>\<open>hashiwrapper\<close> that receives it is
  not part of this file.
\<close>

definition hashivault_auth_ldap ::
  "(string \<Rightarrow> string) \<Rightarrow> ansible_module \<Rightarrow> outcome \<times> client_call list" where
  "hashivault_auth_ldap ul m =
    (let ps = params m;
         cl = auth_client m;
         mount_point = py_get ps ''mount_point''
     in case build_desired_state ul ps of
          Inl e \<Rightarrow> (Raised e, [])
        | Inr desired_state \<Rightarrow>
           (case read_configuration cl mount_point of
              ReadRaises e \<Rightarrow> (Raised e, [CallRead mount_point])
            | r \<Rightarrow>
               (let current_state = (case r of ReadData d \<Rightarrow> d | _ \<Rightarrow> [])
                in case compare_loop desired_state current_state False of
                     Inl msg \<Rightarrow> (Failed msg, [CallRead mount_point])
                   | Inr changed \<Rightarrow>
                      (if changed \<and> \<not> check_mode m then
                         (case configure cl desired_state of
                            Some e \<Rightarrow>
                              (Raised e, [CallRead mount_point, CallConfigure desired_state])
                          | None \<Rightarrow>
                              (Returned changed current_state desired_state,
                               [CallRead mount_point, CallConfigure desired_state]))
                       else
                         (Returned changed current_state desired_state,
                          [CallRead mount_point])))))"

subsection \<open>Notions used to state the properties\<close>

text \<open>The keys of the desired state built from the parameters (none when building raises).\<close>

definition desired_state_keys :: "(string \<Rightarrow> string) \<Rightarrow> pydict \<Rightarrow> string list" where
  "desired_state_keys ul ps =
     (case build_desired_state ul ps of Inl e \<Rightarrow> [] | Inr ds \<Rightarrow> py_keys ds)"

text \<open>
  The field catalog as the specification lists it (section 6, in its order), to be
  compared with the keys that the source puts into the desired state.
\<close>

definition spec_field_catalog :: "string list" where
  "spec_field_catalog =
    [''mount_point'', ''ldap_url'', ''anonymous_group_search'', ''request_timeout'',
     ''token_bound_cidrs'', ''token_explicit_max_ttl'', ''token_no_default_policy'',
     ''token_num_uses'', ''token_period'', ''token_policies'', ''token_type'',
     ''userfilter'', ''username_as_alias'', ''case_sensitive_names'', ''starttls'',
     ''tls_min_version'', ''tls_max_version'', ''insecure_tls'', ''certificate'',
     ''binddn'', ''bindpass'', ''userdn'', ''userattr'', ''discoverdn'', ''deny_null_bind'',
     ''upndomain'', ''groupfilter'', ''groupattr'', ''groupdn'', ''token_ttl'',
     ''token_max_ttl'']"



text \<open>
  How Python binds a parameter that has a default when the function is called as
  \<^verbatim>\<open>f(**kwargs)\<close>: the keyword's value when \<^verbatim>\<open>kwargs\<close> has the name, the default
  otherwise.
\<close>

definition keyword_or_default :: "pydict \<Rightarrow> string \<Rightarrow> pyval \<Rightarrow> pyval" where
  "keyword_or_default kwargs name dflt =
     (case map_of kwargs name of None \<Rightarrow> dflt | Some v \<Rightarrow> v)"

text \<open>The \<^verbatim>\<open>configure\<close> calls among the calls made.\<close>

definition configure_calls :: "client_call list \<Rightarrow> pydict list" where
  "configure_calls cs = concat (map (\<lambda>c. case c of CallConfigure kw \<Rightarrow> [kw] | _ \<Rightarrow> []) cs)"

subsection \<open>Concrete inputs\<close>

text \<open>
  \<^verbatim>\<open>module.params\<close> when the playbook sets no option of this module: every option
  declared in \<^verbatim>\<open>main\<close> at its default.
\<close>

definition default_params :: pydict where
  "default_params = map (\<lambda>(k, e). (k, default e)) main_entries"

text \<open>
  A configuration as Vault may answer it: the defaults under Vault's own key names, with
  one more key that the module does not know.
\<close>

definition vault_config :: pydict where
  "vault_config =
    [(''anonymous_group_search'', PBool False),
     (''binddn'', PStr []),
     (''case_sensitive_names'', PBool False),
     (''certificate'', PStr []),
     (''connection_timeout'', PInt 30),
     (''deny_null_bind'', PBool True),
     (''discoverdn'', PBool False),
     (''groupattr'', PStr ''cn''),
     (''groupdn'', PStr []),
     (''groupfilter'', PStr default_groupfilter),
     (''insecure_tls'', PBool False),
     (''request_timeout'', PInt 90),
     (''starttls'', PBool False),
     (''tls_max_version'', PStr ''tls12''),
     (''tls_min_version'', PStr ''tls12''),
     (''token_bound_cidrs'', PList []),
     (''token_explicit_max_ttl'', PInt 0),
     (''token_max_ttl'', PInt 0),
     (''token_no_default_policy'', PBool False),
     (''token_num_uses'', PInt 0),
     (''token_period'', PInt 0),
     (''token_policies'', PList []),
     (''token_ttl'', PInt 0),
     (''token_type'', PStr ''default''),
     (''upndomain'', PStr []),
     (''url'', PStr ''ldap://127.0.0.1''),
     (''use_pre111_group_cn_behavior'', PNone),
     (''use_token_groups'', PBool False),
     (''userattr'', PStr ''cn''),
     (''userdn'', PStr []),
     (''userfilter'', PStr default_userfilter),
     (''username_as_alias'', PBool False)]"

text \<open>
  A client whose mount \<^verbatim>\<open>ldap\<close> holds the configuration \<open>cur\<close>, whose other mounts
  are not configured, and whose write succeeds.
\<close>

definition ldap_client :: "pydict \<Rightarrow> client" where
  "ldap_client cur =
     \<lparr>read_configuration = (\<lambda>mp. if mp = PStr ''ldap'' then ReadData cur else ReadInvalidPath),
      configure = (\<lambda>kw. None)\<rparr>"

definition example_module :: "pydict \<Rightarrow> bool \<Rightarrow> pydict \<Rightarrow> ansible_module" where
  "example_module ps chk cur = \<lparr>params = ps, check_mode = chk, auth_client = ldap_client cur\<rparr>"

text \<open>
  A stand-in for the interpreter's tables in the examples: it lower-cases the one-letter
  string \<^verbatim>\<open>U+00C9\<close> (E with acute, bytes C3 89) to \<^verbatim>\<open>U+00E9\<close> (bytes C3 A9), as
  Python does, and leaves every other string as it is.
\<close>

definition example_lower :: "string \<Rightarrow> string" where
  "example_lower s = (if s = [CHR 0xC3, CHR 0x89] then [CHR 0xC3, CHR 0xA9] else s)"

text \<open>The desired state that the default parameters give.\<close>

definition default_desired :: pydict where
  "default_desired = py_del ''connection_timeout'' vault_config"

text \<open>The desired state built from the parameters (empty when building raises).\<close>

definition desired_of :: "(string \<Rightarrow> string) \<Rightarrow> pydict \<Rightarrow> pydict" where
  "desired_of ul ps = (case build_desired_state ul ps of Inl e \<Rightarrow> [] | Inr ds \<Rightarrow> ds)"

text \<open>
  The example of the specification: the playbook asks for the URL \<^verbatim>\<open>ldap://b\<close> (and
  supplies a bind password) while Vault holds \<^verbatim>\<open>ldap://a\<close>.
\<close>

definition params_url_b :: pydict where
  "params_url_b =
     py_setitem ''bindpass'' (PStr ''s3cret'')
       (py_setitem ''ldap_url'' (PStr ''ldap://b'') default_params)"

definition vault_config_url_a :: pydict where
  "vault_config_url_a = py_setitem ''url'' (PStr ''ldap://a'') vault_config"

text \<open>The keys of the dictionary literal of lines 230 to 263, in source order.\<close>

definition desired_state_literal_keys :: "string list" where
  "desired_state_literal_keys =
    [''anonymous_group_search'', ''binddn'', ''bindpass'', ''case_sensitive_names'',
     ''certificate'', ''deny_null_bind'', ''discoverdn'', ''groupattr'', ''groupdn'',
     ''groupfilter'', ''insecure_tls'', ''request_timeout'', ''starttls'',
     ''tls_max_version'', ''tls_min_version'', ''token_bound_cidrs'',
     ''token_explicit_max_ttl'', ''token_max_ttl'', ''token_no_default_policy'',
     ''token_num_uses'', ''token_period'', ''token_policies'', ''token_ttl'',
     ''token_type'', ''upndomain'', ''url'', ''use_pre111_group_cn_behavior'',
     ''use_token_groups'', ''userattr'', ''userdn'', ''userfilter'', ''username_as_alias'']"

text \<open>The default parameters with another mount point, one that is not configured.\<close>

definition params_other_mount :: pydict where
  "params_other_mount = py_setitem ''mount_point'' (PStr ''other'') default_params"

subsection \<open>Facts about the dictionary operations and the comparison loop\<close>

lemma py_eq_list_refl: "(\<forall>x\<in>set xs. py_eq x x) \<Longrightarrow> py_eq_list xs xs"
  by (induction xs) auto

lemma py_eq_refl: "py_eq v v"
  by (induction v) (auto simp: py_eq_list_refl)

lemma map_of_py_setitem: "map_of (py_setitem k v d) = (map_of d)(k \<mapsto> v)"
  by (induction d) auto

lemma py_keys_py_setitem: "set (py_keys (py_setitem k v d)) = insert k (set (py_keys d))"
  by (induction d) (force simp: py_keys_def)+

lemma py_get_py_setitem_other: "k' \<noteq> k \<Longrightarrow> py_get (py_setitem k v d) k' = py_get d k'"
  by (simp add: py_get_def map_of_py_setitem)

lemma py_get_py_setitem_same: "py_get (py_setitem k v d) k = v"
  by (simp add: py_get_def map_of_py_setitem)

text \<open>The loop fails at the first compared key that the current state lacks.\<close>

lemma compare_loop_missing:
  assumes "\<forall>(k', v') \<in> set pre. k' \<noteq> ''bindpass'' \<longrightarrow> map_of cur k' \<noteq> None"
    and "k \<noteq> ''bindpass''" and "map_of cur k = None"
  shows "compare_loop (pre @ (k, v) # rest) cur ch =
     Inl (''HVAC unsupported parameter: '' @ key_error_str k)"
  using assms by (induction pre arbitrary: ch) (auto split: option.splits)

text \<open>
  When no compared key is missing the loop runs to its end, and the flag is set exactly
  when it was set before or some compared value is unequal.
\<close>

lemma compare_loop_present:
  assumes "\<forall>(k, v) \<in> set ds. k \<noteq> ''bindpass'' \<longrightarrow> map_of cur k \<noteq> None"
  shows "compare_loop ds cur ch =
     Inr (ch \<or> (\<exists>(k, v) \<in> set ds. k \<noteq> ''bindpass'' \<and> (\<exists>c. map_of cur k = Some c \<and> py_ne v c)))"
  using assms
proof (induction ds arbitrary: ch)
  case Nil
  then show ?case by simp
next
  case (Cons kv ds)
  obtain k v where kv: "kv = (k, v)" by (cases kv)
  show ?case
  proof (cases "k = ''bindpass''")
    case True
    with Cons kv show ?thesis by auto
  next
    case False
    with Cons.prems kv obtain c where c: "map_of cur k = Some c" by auto
    from Cons.prems have "\<forall>(k, v) \<in> set ds. k \<noteq> ''bindpass'' \<longrightarrow> map_of cur k \<noteq> None"
      by auto
    from Cons.IH[OF this] kv False c show ?thesis by auto
  qed
qed

text \<open>The body once the desired state is built and the read has answered.\<close>

lemma hashivault_auth_ldap_after_read:
  assumes "build_desired_state ul (params m) = Inr ds"
    and "read_configuration (auth_client m) (py_get (params m) ''mount_point'') = r"
    and "r = ReadData cur \<or> (r = ReadInvalidPath \<and> cur = [])"
  shows "hashivault_auth_ldap ul m =
    (case compare_loop ds cur False of
       Inl msg \<Rightarrow> (Failed msg, [CallRead (py_get (params m) ''mount_point'')])
     | Inr changed \<Rightarrow>
        (if changed \<and> \<not> check_mode m then
           (case configure (auth_client m) ds of
              Some e \<Rightarrow> Raised e
            | None \<Rightarrow> Returned changed cur ds,
            [CallRead (py_get (params m) ''mount_point''), CallConfigure ds])
         else (Returned changed cur ds, [CallRead (py_get (params m) ''mount_point'')])))"
  using assms
  by (auto simp: hashivault_auth_ldap_def Let_def split: sum.splits option.splits)

text \<open>What the calls and the result of the body can be.\<close>

lemma configure_call_is_desired:
  assumes "kw \<in> set (configure_calls (snd (hashivault_auth_ldap ul m)))"
  shows "build_desired_state ul (params m) = Inr kw \<and> \<not> check_mode m"
  using assms
  by (auto simp: hashivault_auth_ldap_def configure_calls_def Let_def
      split: sum.splits read_result.splits option.splits if_splits)

lemma returned_after_is_desired:
  assumes "fst (hashivault_auth_ldap ul m) = Returned ch b a"
  shows "build_desired_state ul (params m) = Inr a"
  using assms
  by (auto simp: hashivault_auth_ldap_def Let_def
      split: sum.splits read_result.splits option.splits if_splits)

lemma read_call_mount_point:
  assumes "CallRead mp \<in> set (snd (hashivault_auth_ldap ul m))"
  shows "mp = py_get (params m) ''mount_point''"
  using assms
  by (auto simp: hashivault_auth_ldap_def Let_def
      split: sum.splits read_result.splits option.splits if_splits)

lemma build_desired_state_no_bindpass:
  assumes "build_desired_state ul ps = Inr ds" and "py_get ps ''bindpass'' = PNone"
  shows "''bindpass'' \<notin> set (py_keys ds)"
  using assms
  by (auto simp: build_desired_state_def desired_state_literal_def drop_none_bindpass_def
      py_del_def py_keys_def split: sum.splits)

lemma build_desired_state_bindpass:
  assumes "build_desired_state ul ps = Inr ds"
  shows "map_of ds ''bindpass'' =
    (if py_get ps ''bindpass'' = PNone then None else Some (py_get ps ''bindpass''))"
  using assms
  by (auto simp: build_desired_state_def desired_state_literal_def drop_none_bindpass_def
      py_del_def split: sum.splits)

text \<open>The loop skips the entry \<^verbatim>\<open>bindpass\<close> and never looks that key up.\<close>

lemma compare_loop_py_del:
  "compare_loop (py_del ''bindpass'' ds) cur ch = compare_loop ds cur ch"
  by (induction ds cur ch rule: compare_loop.induct)
     (auto simp: py_del_def split: option.splits)

lemma compare_loop_current_cong:
  assumes "\<forall>k. k \<noteq> ''bindpass'' \<longrightarrow> map_of cur k = map_of cur' k"
  shows "compare_loop ds cur ch = compare_loop ds cur' ch"
  using assms
  by (induction ds cur ch rule: compare_loop.induct) (auto split: option.splits)

text \<open>With an empty current state the loop fails at the first key of the literal.\<close>

lemma build_desired_state_first:
  assumes "build_desired_state ul ps = Inr ds"
  shows "\<exists>rest. ds = (''anonymous_group_search'', py_get ps ''anonymous_group_search'') # rest"
  using assms
  by (auto simp: build_desired_state_def desired_state_literal_def drop_none_bindpass_def
      py_del_def split: sum.splits)

text \<open>The keys of the desired state and of the schema.\<close>

lemma py_keys_desired_state_literal:
  assumes "desired_state_literal ul ps = Inr ds"
  shows "py_keys ds = desired_state_literal_keys"
  using assms
  by (auto simp: desired_state_literal_def desired_state_literal_keys_def py_keys_def
      split: sum.splits)

lemma build_desired_state_keys:
  assumes "build_desired_state ul ps = Inr ds"
  shows "set (py_keys ds) \<subseteq> set desired_state_literal_keys"
proof -
  from assms obtain lit where lit: "desired_state_literal ul ps = Inr lit"
    and ds: "ds = drop_none_bindpass lit"
    by (auto simp: build_desired_state_def split: sum.splits)
  have "set (py_keys (drop_none_bindpass lit)) \<subseteq> set (py_keys lit)"
    by (auto simp: drop_none_bindpass_def py_del_def py_keys_def)
  with py_keys_desired_state_literal[OF lit] ds show ?thesis by simp
qed

lemma build_desired_state_url:
  assumes "build_desired_state ul ps = Inr ds"
  shows "map_of ds ''url'' = Some (py_get ps ''ldap_url'')"
  using assms
  by (auto simp: build_desired_state_def desired_state_literal_def drop_none_bindpass_def
      py_del_def split: sum.splits)

lemma py_keys_fold_py_setitem:
  "set (py_keys (fold (\<lambda>(k, e) d. py_setitem k e d) es base)) =
     set (py_keys es) \<union> set (py_keys base)"
proof (induction es arbitrary: base)
  case Nil
  then show ?case by (simp add: py_keys_def)
next
  case (Cons a es)
  obtain k e where a: "a = (k, e)" by (cases a)
  have "set (py_keys (a # es)) = insert k (set (py_keys es))"
    by (simp add: a py_keys_def)
  with Cons[of "py_setitem k e base"] a show ?case
    by (simp add: py_keys_py_setitem)
qed

lemma main_argspec_keys:
  "set (py_keys (main_argspec base)) = set (py_keys main_entries) \<union> set (py_keys base)"
  by (simp add: main_argspec_def py_keys_fold_py_setitem)













lemma build_desired_state_mount_point:
  "build_desired_state ul (py_setitem ''mount_point'' v ps) = build_desired_state ul ps"
  by (simp add: build_desired_state_def desired_state_literal_def py_get_py_setitem_other
      cong: sum.case_cong)

lemma py_del_py_setitem: "py_del k (py_setitem k v d) = py_del k d"
  by (induction d) (auto simp: py_del_def)

subsection \<open>The body on the concrete inputs\<close>

lemma build_default_params: "build_desired_state ul default_params = Inr default_desired"
  by code_simp

lemma default_mount_point: "py_get default_params ''mount_point'' = PStr ''ldap''"
  by code_simp

lemma default_desired_matches_vault_config:
  "\<forall>(k, v) \<in> set default_desired.
     k \<noteq> ''bindpass'' \<longrightarrow> (\<exists>c. map_of vault_config k = Some c \<and> py_eq v c)"
proof -
  have "\<forall>(k, v) \<in> set default_desired. k \<noteq> ''bindpass'' \<longrightarrow>
      (case map_of vault_config k of None \<Rightarrow> False | Some c \<Rightarrow> py_eq v c)"
    by code_simp
  then show ?thesis by (auto split: option.splits)
qed

lemma literal_keys_declared:
  "\<forall>k \<in> set desired_state_literal_keys.
     k = ''use_pre111_group_cn_behavior'' \<or> k = ''url'' \<or> k \<in> set (py_keys main_entries)"
  by code_simp

lemma ldap_url_declared: "''ldap_url'' \<in> set (py_keys main_entries)"
  by code_simp

lemma example_module_simps:
  "params (example_module ps chk cur) = ps"
  "check_mode (example_module ps chk cur) = chk"
  "auth_client (example_module ps chk cur) = ldap_client cur"
  "(example_module ps chk cur)\<lparr>check_mode := chk'\<rparr> = example_module ps chk' cur"
  "(example_module ps chk cur)\<lparr>params := ps'\<rparr> = example_module ps' chk cur"
  by (simp_all add: example_module_def)

lemma ldap_client_simps:
  "read_configuration (ldap_client cur) (PStr ''ldap'') = ReadData cur"
  "read_configuration (ldap_client cur) (PStr ''other'') = ReadInvalidPath"
  "configure (ldap_client cur) kw = None"
  by (simp_all add: ldap_client_def)

lemma default_bindpass: "py_get default_params ''bindpass'' = PNone"
  by code_simp


lemma default_desired_first:
  "default_desired \<noteq> [] \<and> fst (hd default_desired) = ''anonymous_group_search''"
  by code_simp


lemma compare_url_a: "compare_loop default_desired vault_config_url_a False = Inr True"
  by code_simp


lemma run_url_a_check:
  "hashivault_auth_ldap ul (example_module default_params True vault_config_url_a) =
     (Returned True vault_config_url_a default_desired, [CallRead (PStr ''ldap'')])"
  using hashivault_auth_ldap_after_read[of ul "example_module default_params True vault_config_url_a"
      default_desired "ReadData vault_config_url_a" vault_config_url_a]
  by (simp add: example_module_simps ldap_client_simps build_default_params
      default_mount_point compare_url_a)

lemma run_url_a_apply:
  "hashivault_auth_ldap ul (example_module default_params False vault_config_url_a) =
     (Returned True vault_config_url_a default_desired,
      [CallRead (PStr ''ldap''), CallConfigure default_desired])"
  using hashivault_auth_ldap_after_read[of ul "example_module default_params False vault_config_url_a"
      default_desired "ReadData vault_config_url_a" vault_config_url_a]
  by (simp add: example_module_simps ldap_client_simps build_default_params
      default_mount_point compare_url_a)

lemma other_mount:
  "py_get params_other_mount ''mount_point'' = PStr ''other''"
  "build_desired_state ul params_other_mount = Inr default_desired"
  by (simp_all add: params_other_mount_def py_get_py_setitem_same
      build_desired_state_mount_point build_default_params)

lemma default_desired_keys:
  "''bindpass'' \<notin> set (py_keys default_desired)"
  "''mount_point'' \<notin> set (py_keys default_desired)"
  "''url'' \<in> set (py_keys default_desired)"
  "''groupattr'' \<in> set (py_keys default_desired)"
  by code_simp+

lemma main_entries_keys:
  "''url'' \<notin> set (py_keys main_entries)"
  "''groupattr'' \<in> set (py_keys main_entries)"
  by code_simp+


section \<open>The properties\<close>

text \<open>
  C1. When every key of the desired state other than \<^verbatim>\<open>bindpass\<close> is present in the
  current state that was read, with a value equal to the desired one (Python's \<^verbatim>\<open>==\<close>,
  which \<open>py_eq_refl\<close> shows to hold for identical values), the function returns
  \<^verbatim>\<open>changed = False\<close> with the diff, and the only call made on the client is the read:
  \<^verbatim>\<open>configure\<close> is not called, whatever the check-mode flag \<open>chk\<close> is.
\<close>

theorem unchanged_when_equal:
  assumes "build_desired_state ul (params m) = Inr ds"
    and "read_configuration (auth_client m) (py_get (params m) ''mount_point'') = ReadData cur"
    and "\<forall>(k, v) \<in> set ds. k \<noteq> ''bindpass'' \<longrightarrow> (\<exists>c. map_of cur k = Some c \<and> py_eq v c)"
  shows "hashivault_auth_ldap ul (m\<lparr>check_mode := chk\<rparr>) =
           (Returned False cur ds, [CallRead (py_get (params m) ''mount_point'')])"
proof -
  from assms(3)
  have present: "\<forall>(k, v) \<in> set ds. k \<noteq> ''bindpass'' \<longrightarrow> map_of cur k \<noteq> None"
    by fastforce
  from assms(3)
  have "\<not> (\<exists>(k, v) \<in> set ds. k \<noteq> ''bindpass'' \<and> (\<exists>c. map_of cur k = Some c \<and> py_ne v c))"
    by (fastforce simp: py_ne_def)
  with compare_loop_present[OF present, of False]
  have "compare_loop ds cur False = Inr False" by simp
  with hashivault_auth_ldap_after_read[of ul "m\<lparr>check_mode := chk\<rparr>" ds "ReadData cur" cur]
    assms(1,2)
  show ?thesis by simp
qed

theorem unchanged_when_equal_witness:
  "build_desired_state example_lower (params (example_module default_params True vault_config)) =
     Inr default_desired
   \<and> hashivault_auth_ldap example_lower (example_module default_params True vault_config) =
       (Returned False vault_config default_desired, [CallRead (PStr ''ldap'')])
   \<and> hashivault_auth_ldap example_lower (example_module default_params False vault_config) =
       (Returned False vault_config default_desired, [CallRead (PStr ''ldap'')])"
proof -
  let ?m = "example_module default_params True vault_config"
  have b: "build_desired_state example_lower (params ?m) = Inr default_desired"
    by (simp add: example_module_def build_default_params)
  have r: "read_configuration (auth_client ?m) (py_get (params ?m) ''mount_point'') =
      ReadData vault_config"
    by (simp add: example_module_def ldap_client_def default_mount_point)
  note w = unchanged_when_equal[OF b r default_desired_matches_vault_config]
  from w[of True] w[of False] b show ?thesis
    by (simp add: example_module_def default_mount_point)
qed

text \<open>
  C2. When every compared key of the desired state is present in the current state that
  was read and the value at one of them is unequal (Python's \<^verbatim>\<open>!=\<close>), the flag
  \<^verbatim>\<open>changed\<close> is \<^verbatim>\<open>True\<close>. In check mode the function returns it after the read
  alone. With check mode off \<^verbatim>\<open>configure\<close> is called exactly once, after the read,
  with the whole desired state; the function then returns \<^verbatim>\<open>changed = True\<close>, unless
  that call raises, in which case its exception leaves the body. A bind password that
  was supplied is part of the desired state that is written.
\<close>

theorem changed_when_differs:
  assumes "build_desired_state ul (params m) = Inr ds"
    and "read_configuration (auth_client m) (py_get (params m) ''mount_point'') = ReadData cur"
    and "\<forall>(k, v) \<in> set ds. k \<noteq> ''bindpass'' \<longrightarrow> map_of cur k \<noteq> None"
    and "\<exists>(k, v) \<in> set ds. k \<noteq> ''bindpass'' \<and> (\<exists>c. map_of cur k = Some c \<and> py_ne v c)"
  shows "hashivault_auth_ldap ul (m\<lparr>check_mode := True\<rparr>) =
           (Returned True cur ds, [CallRead (py_get (params m) ''mount_point'')])
       \<and> hashivault_auth_ldap ul (m\<lparr>check_mode := False\<rparr>) =
           (case configure (auth_client m) ds of
              None \<Rightarrow> Returned True cur ds
            | Some e \<Rightarrow> Raised e,
            [CallRead (py_get (params m) ''mount_point''), CallConfigure ds])
       \<and> (py_get (params m) ''bindpass'' \<noteq> PNone \<longrightarrow>
            map_of ds ''bindpass'' = Some (py_get (params m) ''bindpass''))"
proof -
  from compare_loop_present[OF assms(3), of False] assms(4)
  have c: "compare_loop ds cur False = Inr True" by simp
  from hashivault_auth_ldap_after_read[of ul "m\<lparr>check_mode := True\<rparr>" ds "ReadData cur" cur]
    assms(1,2) c
  have 1: "hashivault_auth_ldap ul (m\<lparr>check_mode := True\<rparr>) =
           (Returned True cur ds, [CallRead (py_get (params m) ''mount_point'')])"
    by simp
  from hashivault_auth_ldap_after_read[of ul "m\<lparr>check_mode := False\<rparr>" ds "ReadData cur" cur]
    assms(1,2) c
  have 2: "hashivault_auth_ldap ul (m\<lparr>check_mode := False\<rparr>) =
           (case configure (auth_client m) ds of
              None \<Rightarrow> Returned True cur ds
            | Some e \<Rightarrow> Raised e,
            [CallRead (py_get (params m) ''mount_point''), CallConfigure ds])"
    by (simp split: option.splits)
  from build_desired_state_bindpass[OF assms(1)]
  have 3: "py_get (params m) ''bindpass'' \<noteq> PNone \<longrightarrow>
            map_of ds ''bindpass'' = Some (py_get (params m) ''bindpass'')"
    by simp
  from 1 2 3 show ?thesis by blast
qed

theorem changed_when_differs_witness:
  "build_desired_state example_lower params_url_b = Inr (desired_of example_lower params_url_b)
   \<and> map_of (desired_of example_lower params_url_b) ''url'' = Some (PStr ''ldap://b'')
   \<and> map_of vault_config_url_a ''url'' = Some (PStr ''ldap://a'')
   \<and> hashivault_auth_ldap example_lower (example_module params_url_b True vault_config_url_a) =
       (Returned True vault_config_url_a (desired_of example_lower params_url_b), [CallRead (PStr ''ldap'')])
   \<and> hashivault_auth_ldap example_lower (example_module params_url_b False vault_config_url_a) =
       (Returned True vault_config_url_a (desired_of example_lower params_url_b),
        [CallRead (PStr ''ldap''), CallConfigure (desired_of example_lower params_url_b)])
   \<and> map_of (desired_of example_lower params_url_b) ''bindpass'' = Some (PStr ''s3cret'')"
proof -
  let ?m = "example_module params_url_b True vault_config_url_a"
  let ?ds = "desired_of example_lower params_url_b"
  have b: "build_desired_state example_lower (params ?m) = Inr ?ds"
    by code_simp
  have r: "read_configuration (auth_client ?m) (py_get (params ?m) ''mount_point'') =
      ReadData vault_config_url_a"
    by code_simp
  have p: "\<forall>(k, v) \<in> set ?ds. k \<noteq> ''bindpass'' \<longrightarrow> map_of vault_config_url_a k \<noteq> None"
    by code_simp
  have d: "\<exists>(k, v) \<in> set ?ds. k \<noteq> ''bindpass'' \<and>
      (\<exists>c. map_of vault_config_url_a k = Some c \<and> py_ne v c)"
  proof -
    have "(''url'', PStr ''ldap://b'') \<in> set ?ds" by code_simp
    moreover have "map_of vault_config_url_a ''url'' = Some (PStr ''ldap://a'')" by code_simp
    moreover have "py_ne (PStr ''ldap://b'') (PStr ''ldap://a'')" by code_simp
    ultimately show ?thesis by force
  qed
  have e: "map_of ?ds ''url'' = Some (PStr ''ldap://b'')" 
    "map_of vault_config_url_a ''url'' = Some (PStr ''ldap://a'')"
    "py_get params_url_b ''bindpass'' = PStr ''s3cret''"
    "py_get params_url_b ''mount_point'' = PStr ''ldap''"
    by code_simp+
  from changed_when_differs[OF b r p d] b e show ?thesis
    by (simp add: example_module_def ldap_client_def)
qed

text \<open>
  C3. When the read succeeded and the current state lacks a key of the desired state
  other than \<^verbatim>\<open>bindpass\<close>, the function returns the failure dictionary whose message
  is \<^verbatim>\<open>HVAC unsupported parameter:\<close> followed by such a missing key, and the only call
  made on the client is the read, whatever the check-mode flag is.
\<close>

theorem missing_key_fails:
  assumes "build_desired_state ul (params m) = Inr ds"
    and "read_configuration (auth_client m) (py_get (params m) ''mount_point'') = ReadData cur"
    and "\<exists>(k, v) \<in> set ds. k \<noteq> ''bindpass'' \<and> map_of cur k = None"
  shows "\<exists>k \<in> set (py_keys ds). k \<noteq> ''bindpass'' \<and> map_of cur k = None \<and>
           hashivault_auth_ldap ul (m\<lparr>check_mode := chk\<rparr>) =
             (Failed (''HVAC unsupported parameter: '' @ key_error_str k),
              [CallRead (py_get (params m) ''mount_point'')])"
proof -
  let ?P = "\<lambda>kv. fst kv \<noteq> ''bindpass'' \<and> map_of cur (fst kv) = None"
  from assms(3) have "\<exists>kv \<in> set ds. ?P kv" by (simp add: case_prod_beta)
  from split_list_first_prop[OF this]
  obtain pre kv rest where split: "ds = pre @ kv # rest" and kv: "?P kv"
    and pre: "\<forall>y \<in> set pre. \<not> ?P y"
    by blast
  obtain k v where kv_eq: "kv = (k, v)" by (cases kv)
  from pre have "\<forall>(k', v') \<in> set pre. k' \<noteq> ''bindpass'' \<longrightarrow> map_of cur k' \<noteq> None"
    by auto
  from compare_loop_missing[OF this, of k v rest False] kv kv_eq split
  have c: "compare_loop ds cur False =
      Inl (''HVAC unsupported parameter: '' @ key_error_str k)"
    by simp
  from hashivault_auth_ldap_after_read[of ul "m\<lparr>check_mode := chk\<rparr>" ds "ReadData cur" cur]
    assms(1,2) c
  have "hashivault_auth_ldap ul (m\<lparr>check_mode := chk\<rparr>) =
      (Failed (''HVAC unsupported parameter: '' @ key_error_str k),
       [CallRead (py_get (params m) ''mount_point'')])"
    by simp
  moreover from split kv_eq have "k \<in> set (py_keys ds)" by (simp add: py_keys_def)
  ultimately show ?thesis using kv kv_eq by auto
qed

theorem missing_key_fails_witness:
  "build_desired_state example_lower default_params = Inr default_desired
   \<and> map_of (py_del ''use_token_groups'' vault_config) ''use_token_groups'' = None
   \<and> hashivault_auth_ldap example_lower
        (example_module default_params False (py_del ''use_token_groups'' vault_config)) =
       (Failed (''HVAC unsupported parameter: '' @ key_error_str ''use_token_groups''),
        [CallRead (PStr ''ldap'')])"
proof -
  let ?cur = "py_del ''use_token_groups'' vault_config"
  let ?m = "example_module default_params False ?cur"
  have b: "build_desired_state example_lower (params ?m) = Inr default_desired"
    by (simp add: example_module_def build_default_params)
  have r: "read_configuration (auth_client ?m) (py_get (params ?m) ''mount_point'') =
      ReadData ?cur"
    by (simp add: example_module_def ldap_client_def default_mount_point)
  have only: "\<forall>k \<in> set (py_keys default_desired). map_of ?cur k = None \<longrightarrow> k = ''use_token_groups''"
    by code_simp
  have h: "\<exists>(k, v) \<in> set default_desired. k \<noteq> ''bindpass'' \<and> map_of ?cur k = None"
    by code_simp
  from missing_key_fails[OF b r h, of False] only
  have "hashivault_auth_ldap example_lower (?m\<lparr>check_mode := False\<rparr>) =
       (Failed (''HVAC unsupported parameter: '' @ key_error_str ''use_token_groups''),
        [CallRead (py_get (params ?m) ''mount_point'')])"
    by auto
  moreover have "map_of ?cur ''use_token_groups'' = None" by code_simp
  ultimately show ?thesis using b
    by (simp add: example_module_def default_mount_point)
qed

text \<open>
  C4. The comparison does not use \<^verbatim>\<open>bindpass\<close>: two desired states that agree once the
  entry \<^verbatim>\<open>bindpass\<close> is removed, compared with two current states that agree at every
  other key, give the same result of the loop (the same flag or the same failure). And
  when the caller supplies no bind password (\<^verbatim>\<open>params.get('bindpass')\<close> is \<^verbatim>\<open>None\<close>)
  the key \<^verbatim>\<open>bindpass\<close> is not in the desired state, not in the arguments of any
  \<^verbatim>\<open>configure\<close> call and not in the \<^verbatim>\<open>after\<close> part of the returned diff.
\<close>

theorem bindpass_excluded:
  "(py_del ''bindpass'' ds = py_del ''bindpass'' ds' \<longrightarrow>
      (\<forall>k. k \<noteq> ''bindpass'' \<longrightarrow> map_of cur k = map_of cur' k) \<longrightarrow>
      compare_loop ds cur ch = compare_loop ds' cur' ch)
   \<and> (py_get (params m) ''bindpass'' = PNone \<longrightarrow>
        ''bindpass'' \<notin> set (desired_state_keys ul (params m))
        \<and> (\<forall>kw \<in> set (configure_calls (snd (hashivault_auth_ldap ul m))).
              ''bindpass'' \<notin> set (py_keys kw))
        \<and> (\<forall>c b a. fst (hashivault_auth_ldap ul m) = Returned c b a \<longrightarrow>
              ''bindpass'' \<notin> set (py_keys a)))"
proof -
  have 1: "compare_loop ds cur ch = compare_loop ds' cur' ch"
    if d: "py_del ''bindpass'' ds = py_del ''bindpass'' ds'"
      and c: "\<forall>k. k \<noteq> ''bindpass'' \<longrightarrow> map_of cur k = map_of cur' k"
  proof -
    have "compare_loop ds cur ch = compare_loop (py_del ''bindpass'' ds) cur ch"
      by (simp add: compare_loop_py_del)
    also have "\<dots> = compare_loop (py_del ''bindpass'' ds') cur' ch"
      using d compare_loop_current_cong[OF c] by simp
    also have "\<dots> = compare_loop ds' cur' ch"
      by (simp add: compare_loop_py_del)
    finally show ?thesis .
  qed
  have 2: "''bindpass'' \<notin> set (desired_state_keys ul (params m))"
    if "py_get (params m) ''bindpass'' = PNone"
    using that build_desired_state_no_bindpass[of ul "params m"]
    by (auto simp: desired_state_keys_def split: sum.splits)
  have 3: "''bindpass'' \<notin> set (py_keys kw)"
    if "py_get (params m) ''bindpass'' = PNone"
      and "kw \<in> set (configure_calls (snd (hashivault_auth_ldap ul m)))" for kw
    using that configure_call_is_desired[of kw ul m] build_desired_state_no_bindpass by blast
  have 4: "''bindpass'' \<notin> set (py_keys a)"
    if "py_get (params m) ''bindpass'' = PNone"
      and "fst (hashivault_auth_ldap ul m) = Returned c b a" for c b a
    using that returned_after_is_desired[of ul m c b a] build_desired_state_no_bindpass by blast
  from 1 2 3 4 show ?thesis by blast
qed

theorem bindpass_excluded_witness:
  "py_del ''bindpass'' (py_setitem ''bindpass'' (PStr ''s3cret'') default_desired) =
     py_del ''bindpass'' default_desired
   \<and> compare_loop (py_setitem ''bindpass'' (PStr ''s3cret'') default_desired)
        (py_setitem ''bindpass'' (PStr ''old'') vault_config) False =
       compare_loop default_desired vault_config False
   \<and> py_get (params (example_module default_params False vault_config_url_a)) ''bindpass'' =
       PNone
   \<and> ''bindpass'' \<notin> set (desired_state_keys example_lower default_params)
   \<and> configure_calls
        (snd (hashivault_auth_ldap example_lower (example_module default_params False vault_config_url_a))) =
       [default_desired]
   \<and> fst (hashivault_auth_ldap example_lower (example_module default_params False vault_config_url_a)) =
       Returned True vault_config_url_a default_desired
   \<and> ''bindpass'' \<notin> set (py_keys default_desired)"
proof -
  let ?m = "example_module default_params False vault_config_url_a"
  have d: "py_del ''bindpass'' (py_setitem ''bindpass'' (PStr ''s3cret'') default_desired) =
     py_del ''bindpass'' default_desired"
    by (simp add: py_del_py_setitem)
  have c: "\<forall>k. k \<noteq> ''bindpass'' \<longrightarrow>
      map_of (py_setitem ''bindpass'' (PStr ''old'') vault_config) k = map_of vault_config k"
    by (simp add: map_of_py_setitem)
  have n: "py_get (params ?m) ''bindpass'' = PNone"
    by (simp add: example_module_simps default_bindpass)
  have calls: "configure_calls (snd (hashivault_auth_ldap example_lower ?m)) = [default_desired]"
    by (simp add: run_url_a_apply configure_calls_def)
  have res: "fst (hashivault_auth_ldap example_lower ?m) = Returned True vault_config_url_a default_desired"
    by (simp add: run_url_a_apply)
  from bindpass_excluded[of "py_setitem ''bindpass'' (PStr ''s3cret'') default_desired"
      default_desired "py_setitem ''bindpass'' (PStr ''old'') vault_config" vault_config
      False ?m example_lower] d c n calls res
  show ?thesis by (simp add: example_module_simps)
qed

text \<open>
  C5. In check mode \<^verbatim>\<open>configure\<close> is never called. The result is the one computed with
  check mode off (the same flag and diff, or the same failure), the one exception being a
  run with check mode off whose single \<^verbatim>\<open>configure\<close> call raises: that run returns
  nothing and the exception leaves the body.
\<close>

theorem check_mode_never_writes:
  "configure_calls (snd (hashivault_auth_ldap ul (m\<lparr>check_mode := True\<rparr>))) = []
   \<and> (fst (hashivault_auth_ldap ul (m\<lparr>check_mode := False\<rparr>)) =
        fst (hashivault_auth_ldap ul (m\<lparr>check_mode := True\<rparr>))
      \<or> (\<exists>kw e. configure_calls (snd (hashivault_auth_ldap ul (m\<lparr>check_mode := False\<rparr>))) = [kw]
            \<and> configure (auth_client m) kw = Some e
            \<and> fst (hashivault_auth_ldap ul (m\<lparr>check_mode := False\<rparr>)) = Raised e))"
  by (auto simp: hashivault_auth_ldap_def configure_calls_def Let_def
      split: sum.splits read_result.splits option.splits)

theorem check_mode_never_writes_witness:
  "configure_calls
     (snd (hashivault_auth_ldap example_lower (example_module default_params True vault_config_url_a))) = []
   \<and> fst (hashivault_auth_ldap example_lower (example_module default_params False vault_config_url_a)) =
       fst (hashivault_auth_ldap example_lower (example_module default_params True vault_config_url_a))
   \<and> fst (hashivault_auth_ldap example_lower (example_module default_params True vault_config_url_a)) =
       Returned True vault_config_url_a default_desired
   \<and> configure_calls
       (snd (hashivault_auth_ldap example_lower (example_module default_params False vault_config_url_a))) =
       [default_desired]"
  using check_mode_never_writes[of example_lower "example_module default_params False vault_config_url_a"]
  by (simp add: example_module_simps ldap_client_simps run_url_a_check run_url_a_apply
      configure_calls_def)



text \<open>
  C7, as the specification words it, does not hold: with the default parameters the
  desired state has the keys \<^verbatim>\<open>url\<close> and \<^verbatim>\<open>use_pre111_group_cn_behavior\<close> (and
  \<^verbatim>\<open>use_token_groups\<close>), which are not names of the specification's field catalog, and
  the first two are not names that \<^verbatim>\<open>main\<close> declares either.
\<close>

theorem desired_keys_not_all_declared:
  "\<not> set (desired_state_keys example_lower default_params) \<subseteq> set spec_field_catalog
   \<and> \<not> set (desired_state_keys example_lower default_params) \<subseteq> set (py_keys main_entries)"
  by code_simp

text \<open>
  C7, amended. Every key of the built desired state other than
  \<^verbatim>\<open>use_pre111_group_cn_behavior\<close> is the name of an option of the schema that
  \<^verbatim>\<open>main\<close> hands to Ansible (whatever \<^verbatim>\<open>hashivault_argspec()\<close> contributes as
  \<open>base\<close>), or it is the key \<^verbatim>\<open>url\<close>, which holds the value of the declared option
  \<^verbatim>\<open>ldap_url\<close>.
\<close>

theorem desired_keys_declared:
  assumes "build_desired_state ul ps = Inr ds"
    and "k \<in> set (py_keys ds)"
    and "k \<noteq> ''use_pre111_group_cn_behavior''"
  shows "k \<in> set (py_keys (main_argspec base))
     \<or> (k = ''url'' \<and> map_of ds ''url'' = Some (py_get ps ''ldap_url'')
          \<and> ''ldap_url'' \<in> set (py_keys (main_argspec base)))"
proof -
  from build_desired_state_keys[OF assms(1)] assms(2)
  have "k \<in> set desired_state_literal_keys" by blast
  with literal_keys_declared assms(3)
  have "k = ''url'' \<or> k \<in> set (py_keys main_entries)" by blast
  with build_desired_state_url[OF assms(1)] ldap_url_declared show ?thesis
    by (auto simp: main_argspec_keys)
qed

theorem desired_keys_declared_witness:
  "build_desired_state example_lower default_params = Inr default_desired
   \<and> ''groupattr'' \<in> set (py_keys default_desired)
   \<and> ''groupattr'' \<in> set (py_keys (main_argspec []))
   \<and> ''url'' \<in> set (py_keys default_desired)
   \<and> ''url'' \<notin> set (py_keys (main_argspec []))
   \<and> map_of default_desired ''url'' = Some (py_get default_params ''ldap_url'')
   \<and> ''ldap_url'' \<in> set (py_keys (main_argspec []))"
proof -
  have ne: "''groupattr'' \<noteq> ''use_pre111_group_cn_behavior''"
    "''url'' \<noteq> ''use_pre111_group_cn_behavior''"
    by simp_all
  have "set (py_keys ([] :: (string \<times> argspec_entry) list)) = {}"
    by (simp add: py_keys_def)
  then have nu: "''url'' \<notin> set (py_keys (main_argspec []))"
    by (simp add: main_argspec_keys main_entries_keys)
  have g: "''groupattr'' \<in> set (py_keys (main_argspec []))"
    by (simp add: main_argspec_keys main_entries_keys)
  from desired_keys_declared[OF build_default_params default_desired_keys(3) ne(2), of "[]"]
    desired_keys_declared[OF build_default_params default_desired_keys(4) ne(1), of "[]"]
    nu g build_default_params default_desired_keys
  show ?thesis by simp
qed



text \<open>
  C9. When the read raises \<^verbatim>\<open>InvalidPath\<close> (the mount is not configured), every desired
  state that was built is non-empty, its first key is \<^verbatim>\<open>anonymous_group_search\<close>, and
  the function returns the failure \<^verbatim>\<open>HVAC unsupported parameter\<close> for that key. Whatever
  the parameters and the check-mode flag, such a run makes no \<^verbatim>\<open>configure\<close> call and
  never returns a success dictionary.
\<close>

theorem unconfigured_always_fails:
  assumes "read_configuration (auth_client m) (py_get (params m) ''mount_point'') =
      ReadInvalidPath"
  shows "(\<forall>ds. build_desired_state ul (params m) = Inr ds \<longrightarrow>
            ds \<noteq> [] \<and> fst (hd ds) = ''anonymous_group_search'' \<and>
            hashivault_auth_ldap ul (m\<lparr>check_mode := chk\<rparr>) =
              (Failed (''HVAC unsupported parameter: '' @
                 key_error_str ''anonymous_group_search''),
               [CallRead (py_get (params m) ''mount_point'')]))
       \<and> configure_calls (snd (hashivault_auth_ldap ul (m\<lparr>check_mode := chk\<rparr>))) = []
       \<and> (\<forall>c b a. fst (hashivault_auth_ldap ul (m\<lparr>check_mode := chk\<rparr>)) \<noteq> Returned c b a)"
proof -
  have 1: "ds \<noteq> [] \<and> fst (hd ds) = ''anonymous_group_search'' \<and>
      hashivault_auth_ldap ul (m\<lparr>check_mode := chk\<rparr>) =
        (Failed (''HVAC unsupported parameter: '' @ key_error_str ''anonymous_group_search''),
         [CallRead (py_get (params m) ''mount_point'')])"
    if b: "build_desired_state ul (params m) = Inr ds" for ds
  proof -
    from build_desired_state_first[OF b] obtain rest where
      ds: "ds = (''anonymous_group_search'', py_get (params m) ''anonymous_group_search'') # rest"
      by blast
    then have "compare_loop ds [] False =
        Inl (''HVAC unsupported parameter: '' @ key_error_str ''anonymous_group_search'')"
      by simp
    with hashivault_auth_ldap_after_read[of ul "m\<lparr>check_mode := chk\<rparr>" ds ReadInvalidPath "[]"]
      b assms ds
    show ?thesis by simp
  qed
  show ?thesis
  proof (cases "build_desired_state ul (params m)")
    case (Inl e)
    then show ?thesis
      by (simp add: hashivault_auth_ldap_def Let_def configure_calls_def)
  next
    case (Inr ds)
    from 1[OF Inr] Inr show ?thesis by (simp add: configure_calls_def)
  qed
qed

theorem unconfigured_always_fails_witness:
  "read_configuration (auth_client (example_module params_other_mount False vault_config))
     (py_get (params (example_module params_other_mount False vault_config)) ''mount_point'') =
     ReadInvalidPath
   \<and> build_desired_state example_lower (params (example_module params_other_mount False vault_config)) =
       Inr default_desired
   \<and> hashivault_auth_ldap example_lower (example_module params_other_mount False vault_config) =
       (Failed (''HVAC unsupported parameter: '' @ key_error_str ''anonymous_group_search''),
        [CallRead (PStr ''other'')])
   \<and> configure_calls
        (snd (hashivault_auth_ldap example_lower (example_module params_other_mount False vault_config))) = []"
proof -
  let ?m = "example_module params_other_mount True vault_config"
  have r: "read_configuration (auth_client ?m) (py_get (params ?m) ''mount_point'') =
      ReadInvalidPath"
    by (simp add: example_module_simps ldap_client_simps other_mount)
  have b: "build_desired_state example_lower (params ?m) = Inr default_desired"
    by (simp add: example_module_simps other_mount)
  from unconfigured_always_fails[OF r, of example_lower False] r b show ?thesis
    by (simp add: example_module_simps other_mount configure_calls_def)
qed

text \<open>
  C10. The mount point goes to the read only. Every \<^verbatim>\<open>configure\<close> call receives the
  desired state as its keyword arguments; these have no key \<^verbatim>\<open>mount_point\<close>, so a
  \<^verbatim>\<open>mount_point\<close> parameter of the callee takes its default \<open>dflt\<close>, whatever that is.
  Every read call is made with \<^verbatim>\<open>params.get('mount_point')\<close>. The desired state, hence
  what is written, is the same for every value \<open>mp'\<close> of the mount point.
\<close>

theorem write_ignores_mount_point:
  "(\<forall>kw \<in> set (configure_calls (snd (hashivault_auth_ldap ul m))).
      build_desired_state ul (params m) = Inr kw
      \<and> ''mount_point'' \<notin> set (py_keys kw)
      \<and> keyword_or_default kw ''mount_point'' dflt = dflt)
   \<and> (\<forall>c \<in> set (snd (hashivault_auth_ldap ul m)).
        \<forall>mp. c = CallRead mp \<longrightarrow> mp = py_get (params m) ''mount_point'')
   \<and> build_desired_state ul (py_setitem ''mount_point'' mp' (params m)) =
       build_desired_state ul (params m)"
proof -
  have keys: "''mount_point'' \<notin> set (py_keys kw)" if "build_desired_state ul ps = Inr kw" for ps kw
    using that
    by (auto simp: build_desired_state_def desired_state_literal_def drop_none_bindpass_def
        py_del_def py_keys_def split: sum.splits if_splits)
  have dflt: "keyword_or_default kw ''mount_point'' dflt = dflt"
    if "''mount_point'' \<notin> set (py_keys kw)" for kw
  proof -
    from that have "map_of kw ''mount_point'' = None"
      by (simp add: map_of_eq_None_iff py_keys_def)
    then show ?thesis by (simp add: keyword_or_default_def)
  qed
  have 1: "\<forall>kw \<in> set (configure_calls (snd (hashivault_auth_ldap ul m))).
      build_desired_state ul (params m) = Inr kw
      \<and> ''mount_point'' \<notin> set (py_keys kw)
      \<and> keyword_or_default kw ''mount_point'' dflt = dflt"
    using configure_call_is_desired[of _ ul m] keys dflt by blast
  have 2: "\<forall>c \<in> set (snd (hashivault_auth_ldap ul m)).
        \<forall>mp. c = CallRead mp \<longrightarrow> mp = py_get (params m) ''mount_point''"
    using read_call_mount_point[of _ ul m] by blast
  from 1 2 show ?thesis by (simp add: build_desired_state_mount_point)
qed

theorem write_ignores_mount_point_witness:
  "snd (hashivault_auth_ldap example_lower (example_module default_params False vault_config_url_a)) =
     [CallRead (PStr ''ldap''), CallConfigure default_desired]
   \<and> py_get default_params ''mount_point'' = PStr ''ldap''
   \<and> build_desired_state example_lower default_params = Inr default_desired
   \<and> ''mount_point'' \<notin> set (py_keys default_desired)
   \<and> keyword_or_default default_desired ''mount_point'' (PStr ''ldap'') = PStr ''ldap''
   \<and> build_desired_state example_lower (py_setitem ''mount_point'' (PStr ''other'') default_params) =
       Inr default_desired"
  using write_ignores_mount_point[of example_lower "example_module default_params False vault_config_url_a"
      "PStr ''ldap''" "PStr ''other''"]
  by (simp add: example_module_simps run_url_a_apply configure_calls_def default_mount_point
      build_default_params)

end
